theory Spec2Isabelle
  imports Complex_Main "HOL-Library.Word"
begin

section \<open>Javari Video Analysis: the routing, upload and dispatch logic of App.jsx\<close>

text \<open>
  The file \<^verbatim>\<open>src/App.jsx\<close> holds three variants of the application component, one after
  the other. The first one (lines 1 to 1190, \<^verbatim>\<open>JavariVideoAnalysis\<close> with the routing table
  \<^verbatim>\<open>API_ROUTING\<close>) is embedded in full below and keeps the names of the source. From the
  second variant (lines 1191 to 2061) and the third one (lines 2062 to 2603) the parts are
  embedded that the properties below refer to; their names carry the suffix \<open>_v2\<close> and
  \<open>_v3\<close>.

  React state variables become the fields of one record, an event handler becomes a
  function from the state before the event to the state after it. Two effects on the
  environment are kept in the same record: the browser's store of object URLs
  (\<^verbatim>\<open>URL.createObjectURL\<close>) and the log of provider calls.
\<close>

subsection \<open>Strings\<close>

text \<open>
  Identifiers, MIME types and the texts written in the program are ASCII and are modelled
  as \<^typ>\<open>string\<close>. Text that the user supplies (a file name, the query) is a JavaScript
  string, a sequence of UTF-16 code units.
\<close>

type_synonym ustring = "16 word list"

definition utf16 :: "string \<Rightarrow> ustring" where
  "utf16 cs = map of_char cs"

text \<open>\<^verbatim>\<open>String.prototype.startsWith\<close>, on the MIME type of a file.\<close>

definition startsWith :: "string \<Rightarrow> string \<Rightarrow> bool" where
  "startsWith s p = (take (length p) s = p)"

text \<open>
  \<^verbatim>\<open>String.prototype.trim\<close> strips the code units that ECMAScript calls white space or
  line terminator from both ends.
\<close>

definition isWhiteSpace :: "16 word \<Rightarrow> bool" where
  "isWhiteSpace c =
     (c = 0x9 \<or> c = 0xA \<or> c = 0xB \<or> c = 0xC \<or> c = 0xD \<or> c = 0x20 \<or> c = 0xA0 \<or>
      c = 0x1680 \<or> (0x2000 \<le> c \<and> c \<le> 0x200A) \<or> c = 0x2028 \<or> c = 0x2029 \<or>
      c = 0x202F \<or> c = 0x205F \<or> c = 0x3000 \<or> c = 0xFEFF)"

definition trim :: "ustring \<Rightarrow> ustring" where
  "trim q = rev (dropWhile isWhiteSpace (rev (dropWhile isWhiteSpace q)))"

text \<open>
  A JavaScript number is a double: a rational number, \<^verbatim>\<open>NaN\<close> or an infinity.
  \<^term>\<open>Finite r\<close> is the double with the value \<open>r\<close>, or, where the source writes a
  numeric literal, the double that the literal \<open>r\<close> denotes. Numbers are stored and
  copied only: no arithmetic of doubles is embedded.
\<close>

datatype number = Finite real | NaN | PosInfinity | NegInfinity

subsection \<open>Configuration: providers, tasks and the routing table\<close>

text \<open>
  An entry of \<^verbatim>\<open>API_CONFIG\<close>. The fields \<^verbatim>\<open>icon\<close> and \<^verbatim>\<open>gradient\<close> are rendering data
  and are left out.
\<close>

record api_config =
  api_name :: string
  api_description :: string
  capabilities :: "string list"
  freeLimit :: string
  maxVideoSize :: string
  maxDuration :: string
  bestFor :: string
  api_color :: string

definition API_CONFIG :: "(string \<times> api_config) list" where
  "API_CONFIG =
    [(''gemini'',
      \<lparr>api_name = ''Google Gemini 2.0'',
       api_description = ''Native video understanding with 1M token context'',
       capabilities = [''Video Q&A'', ''Damage Analysis'', ''Content Summary'', ''Scene Description''],
       freeLimit = ''1,500 requests/day'', maxVideoSize = ''100MB'', maxDuration = ''1 hour'',
       bestFor = ''General video understanding, property inspection, Q&A'',
       api_color = ''#4285F4''\<rparr>),
     (''twelveLabs'',
      \<lparr>api_name = ''Twelve Labs'',
       api_description = ''Semantic video search and timestamp finding'',
       capabilities = [''Semantic Search'', ''Timestamp Finding'', ''Video Indexing'', ''Highlight Detection''],
       freeLimit = ''600 minutes lifetime'', maxVideoSize = ''2GB'', maxDuration = ''2 hours'',
       bestFor = ''Finding specific moments, semantic search, video indexing'',
       api_color = ''#FF6B6B''\<rparr>),
     (''googleVideoIntelligence'',
      \<lparr>api_name = ''Google Cloud Video Intelligence'',
       api_description = ''Object detection and label analysis'',
       capabilities = [''Object Detection'', ''Label Detection'', ''Scene Change'', ''Shot Detection''],
       freeLimit = ''1,000 minutes/month'', maxVideoSize = ''100MB'', maxDuration = ''2 hours'',
       bestFor = ''Object tracking, label detection, scene analysis'',
       api_color = ''#34A853''\<rparr>),
     (''roboflow'',
      \<lparr>api_name = ''Roboflow'',
       api_description = ''Custom AI detection models'',
       capabilities = [''Custom Detection'', ''Damage Detection'', ''Defect Analysis'', ''Object Segmentation''],
       freeLimit = ''1,000 API calls/month'', maxVideoSize = ''100MB'', maxDuration = ''30 minutes'',
       bestFor = ''Custom damage detection, specialized models, defect analysis'',
       api_color = ''#6366F1''\<rparr>)]"

text \<open>
  An entry of \<^verbatim>\<open>ANALYSIS_TASKS\<close>. No code reads \<^verbatim>\<open>prompts\<close>: the field keeps the provider
  ids that have a prompt template, the template texts are left out, and so is \<^verbatim>\<open>icon\<close>.
\<close>

record task =
  task_id :: string
  task_name :: string
  task_description :: string
  task_color :: string
  primaryAPI :: string
  fallbackAPI :: string
  creditCost :: nat
  prompts :: "string list"

definition ANALYSIS_TASKS :: "(string \<times> task) list" where
  "ANALYSIS_TASKS =
    [(''property_damage'',
      \<lparr>task_id = ''property_damage'', task_name = ''Property Damage Inspection'',
       task_description = ''Analyze roof, siding, or structural damage from drone/camera footage'',
       task_color = ''#EF4444'', primaryAPI = ''gemini'', fallbackAPI = ''roboflow'',
       creditCost = 5, prompts = [''gemini'']\<rparr>),
     (''vehicle_damage'',
      \<lparr>task_id = ''vehicle_damage'', task_name = ''Vehicle Damage Assessment'',
       task_description = ''Detect dents, scratches, and damage on vehicles'',
       task_color = ''#F59E0B'', primaryAPI = ''roboflow'', fallbackAPI = ''gemini'',
       creditCost = 4, prompts = [''gemini'']\<rparr>),
     (''content_search'',
      \<lparr>task_id = ''content_search'', task_name = ''Content Search & Moments'',
       task_description = ''Find specific moments, objects, or actions within videos'',
       task_color = ''#8B5CF6'', primaryAPI = ''gemini'', fallbackAPI = ''twelveLabs'',
       creditCost = 3, prompts = [''gemini'']\<rparr>),
     (''object_tracking'',
      \<lparr>task_id = ''object_tracking'', task_name = ''Object Detection & Tracking'',
       task_description = ''Track and identify objects, people, or vehicles across video'',
       task_color = ''#10B981'', primaryAPI = ''googleVideoIntelligence'', fallbackAPI = ''gemini'',
       creditCost = 4, prompts = [''gemini'']\<rparr>),
     (''content_summary'',
      \<lparr>task_id = ''content_summary'', task_name = ''Video Summary & Analysis'',
       task_description = ''Generate comprehensive summary with key moments and insights'',
       task_color = ''#06B6D4'', primaryAPI = ''gemini'', fallbackAPI = ''twelveLabs'',
       creditCost = 2, prompts = [''gemini'']\<rparr>),
     (''custom_query'',
      \<lparr>task_id = ''custom_query'', task_name = ''Custom Video Query'',
       task_description = ''Ask any question about your video content'',
       task_color = ''#EC4899'', primaryAPI = ''gemini'', fallbackAPI = ''twelveLabs'',
       creditCost = 3, prompts = []\<rparr>)]"

record routing =
  primary :: string
  fallback :: string

definition API_ROUTING :: "(string \<times> routing) list" where
  "API_ROUTING =
    [(''property_damage'', \<lparr>primary = ''gemini'', fallback = ''roboflow''\<rparr>),
     (''vehicle_damage'', \<lparr>primary = ''roboflow'', fallback = ''gemini''\<rparr>),
     (''content_search'', \<lparr>primary = ''gemini'', fallback = ''twelveLabs''\<rparr>),
     (''object_tracking'', \<lparr>primary = ''googleVideoIntelligence'', fallback = ''gemini''\<rparr>),
     (''content_summary'', \<lparr>primary = ''gemini'', fallback = ''twelveLabs''\<rparr>),
     (''custom_query'', \<lparr>primary = ''gemini'', fallback = ''twelveLabs''\<rparr>)]"

text \<open>
  A property read \<^verbatim>\<open>OBJ[key]\<close> on one of these literal objects is \<^term>\<open>map_of OBJ key\<close>, with
  \<^term>\<open>None\<close> for \<^verbatim>\<open>undefined\<close>. The object literals have the prototype of every plain
  object, so the names below are found on them as well; the program never uses one of
  them as an identifier, and the embedding does not describe what a read of them yields.
\<close>

definition Object_prototype_names :: "string list" where
  "Object_prototype_names =
    [''constructor'', ''hasOwnProperty'', ''isPrototypeOf'', ''propertyIsEnumerable'',
     ''toLocaleString'', ''toString'', ''valueOf'', ''__defineGetter__'', ''__defineSetter__'',
     ''__lookupGetter__'', ''__lookupSetter__'', ''__proto__'']"

subsection \<open>Values thrown and the message shown\<close>

text \<open>
  What a \<^verbatim>\<open>catch\<close> block can receive. \<^term>\<open>TypeError p\<close> is the error the engine throws
  when property \<open>p\<close> is read from \<^verbatim>\<open>undefined\<close>; its text is chosen by the engine and is
  not empty, and it is kept symbolic as \<^term>\<open>TypeErrorText p\<close>. \<^term>\<open>Unreadable\<close> is
  \<^verbatim>\<open>undefined\<close>, \<^verbatim>\<open>null\<close>, or a value whose \<^verbatim>\<open>message\<close> property cannot be read: the
  expression \<^verbatim>\<open>err.message\<close> throws. Every other value is told by its \<^verbatim>\<open>message\<close>
  property: the string \<open>m\<close> (\<^term>\<open>WithMessage m\<close>), a value that is falsy and not a string
  (\<^term>\<open>WithoutMessage\<close>: \<^verbatim>\<open>undefined\<close> for a value without the property), or a value that
  is truthy and not a string (\<^term>\<open>WithOtherMessage\<close>, stored as \<^term>\<open>NonText\<close>).
\<close>

datatype thrown =
  TypeError string | Unreadable | WithMessage string | WithoutMessage | WithOtherMessage

datatype message = Text string | TypeErrorText string | NonText

text \<open>
  The argument of \<^verbatim>\<open>setError\<close> in line 451,
  \<^verbatim>\<open>err.message || 'Analysis failed. Please try again.'\<close>; \<^term>\<open>None\<close> when evaluating it
  throws.
\<close>

fun failure_reason :: "thrown \<Rightarrow> message option" where
  "failure_reason (TypeError p) = Some (TypeErrorText p)"
| "failure_reason Unreadable = None"
| "failure_reason (WithMessage m) =
     Some (if m = [] then Text ''Analysis failed. Please try again.'' else Text m)"
| "failure_reason WithoutMessage = Some (Text ''Analysis failed. Please try again.'')"
| "failure_reason WithOtherMessage = Some NonText"

subsection \<open>Provider resolution\<close>

text \<open>
  Lines 429 and 430 of \<^verbatim>\<open>analyzeVideo\<close>:
  \<^verbatim>\<open>const routing = API_ROUTING[selectedTask];\<close>
  \<^verbatim>\<open>const apiToUse = selectedAPI === 'auto' ? routing.primary : selectedAPI;\<close>
  The routing entry is read only in the branch for \<^verbatim>\<open>'auto'\<close>, which throws when the task
  has no entry.
\<close>

definition apiToUse :: "string \<Rightarrow> string \<Rightarrow> thrown + string" where
  "apiToUse selectedTask selectedAPI =
     (if selectedAPI = ''auto''
      then (case map_of API_ROUTING selectedTask of
              None \<Rightarrow> Inl (TypeError ''primary'')
            | Some routing \<Rightarrow> Inr (primary routing))
      else Inr selectedAPI)"

subsection \<open>Files, results and the state of the component\<close>

text \<open>A \<^verbatim>\<open>File\<close> of the browser: \<^verbatim>\<open>name\<close>, \<^verbatim>\<open>type\<close> (the declared MIME type) and \<^verbatim>\<open>size\<close> in bytes.\<close>

record js_file =
  file_name :: ustring
  file_type :: string
  file_size :: nat

text \<open>The objects that \<^verbatim>\<open>simulateAPICall\<close> returns, one constructor for each shape.\<close>

record damage_item =
  item_id :: nat
  location :: string
  damage_type :: string
  severity :: string
  item_timestamp :: string
  item_description :: string
  recommendation :: string

record overall_condition =
  score :: number
  label :: string
  condition_description :: string

record recommendation_lists =
  immediate :: "string list"
  shortTerm :: "string list"
  longTerm :: "string list"

record timeline_entry =
  time :: string
  event :: string

datatype payload =
    DamageReport (summary: ustring) (overallCondition: overall_condition)
      (damageItems: "damage_item list") (positiveObservations: "string list")
      (recommendations: recommendation_lists) (confidence: number)
  | CustomAnswer (summary: ustring) (answer: ustring) (confidence: number)
      (relatedTimestamps: "string list")
  | KeyFindings (summary: ustring) (keyFindings: "string list")
      (timestamps: "timeline_entry list") (confidence: number)

text \<open>The object that \<^verbatim>\<open>analyzeVideo\<close> stores with \<^verbatim>\<open>setAnalysisResult\<close> (lines 439 to 447).\<close>

record analysis_result =
  r_task :: string
  r_api :: string
  r_timestamp :: string
  r_videoName :: ustring
  r_videoDuration :: "number option"
  r_videoSize :: nat
  r_data :: payload

type_synonym url = nat

text \<open>
  The state variables of lines 322 to 333, then the environment: \<open>object_urls\<close> is the
  browser's store of the object URLs that are allocated and not revoked, each with the file
  it shows, \<open>urls_issued\<close> numbers them, and \<open>provider_calls\<close> lists the provider of every
  call that was dispatched.
\<close>

record state =
  currentPage :: string
  selectedTask :: "string option"
  videoFile :: "js_file option"
  videoPreview :: "url option"
  videoDuration :: "number option"
  customQuery :: ustring
  isAnalyzing :: bool
  analysisResult :: "analysis_result option"
  selectedAPI :: string
  error :: "message option"
  analysisProgress :: number
  showAPIInfo :: bool
  object_urls :: "(url \<times> js_file) list"
  urls_issued :: nat
  provider_calls :: "string list"

definition initial_state :: state where
  "initial_state =
     \<lparr>currentPage = ''home'', selectedTask = None, videoFile = None, videoPreview = None,
      videoDuration = None, customQuery = [], isAnalyzing = False, analysisResult = None,
      selectedAPI = ''auto'', error = None, analysisProgress = Finite 0, showAPIInfo = False,
      object_urls = [], urls_issued = 0, provider_calls = []\<rparr>"

subsection \<open>Upload\<close>

text \<open>\<^verbatim>\<open>URL.createObjectURL(file)\<close>: a new URL, bound to the file, enters the store.\<close>

definition createObjectURL :: "js_file \<Rightarrow> state \<Rightarrow> url \<times> state" where
  "createObjectURL file s =
     (urls_issued s,
      s\<lparr>object_urls := object_urls s @ [(urls_issued s, file)],
        urls_issued := Suc (urls_issued s)\<rparr>)"

text \<open>
  \<^verbatim>\<open>handleVideoUpload\<close> (lines 339 to 357); the argument is \<^verbatim>\<open>e.target.files?.[0]\<close>,
  \<^term>\<open>None\<close> when the selection is empty.
\<close>

definition handleVideoUpload :: "js_file option \<Rightarrow> state \<Rightarrow> state" where
  "handleVideoUpload e s =
     (case e of
        None \<Rightarrow> s
      | Some file \<Rightarrow>
          if \<not> startsWith (file_type file) ''video/''
          then s\<lparr>error := Some (Text ''Please upload a valid video file (MP4, MOV, AVI, WebM)'')\<rparr>
          else if file_size file > 100 * 1024 * 1024
          then s\<lparr>error := Some (Text
                 ''File size exceeds 100MB limit. Please use a smaller video or compress it.'')\<rparr>
          else (case createObjectURL file s of
                  (preview, s') \<Rightarrow>
                    s'\<lparr>videoFile := Some file, videoPreview := Some preview, error := None,
                       analysisResult := None\<rparr>))"

text \<open>\<^verbatim>\<open>handleDrop\<close> (lines 360 to 376); the argument is \<^verbatim>\<open>e.dataTransfer.files?.[0]\<close>.\<close>

definition handleDrop :: "js_file option \<Rightarrow> state \<Rightarrow> state" where
  "handleDrop e s =
     (case e of
        None \<Rightarrow> s\<lparr>error := Some (Text ''Please drop a valid video file'')\<rparr>
      | Some file \<Rightarrow>
          if startsWith (file_type file) ''video/''
          then if file_size file > 100 * 1024 * 1024
               then s\<lparr>error := Some (Text ''File size exceeds 100MB limit'')\<rparr>
               else (case createObjectURL file s of
                       (preview, s') \<Rightarrow>
                         s'\<lparr>videoFile := Some file, videoPreview := Some preview, error := None,
                            analysisResult := None\<rparr>)
          else s\<lparr>error := Some (Text ''Please drop a valid video file'')\<rparr>)"

text \<open>
  \<^verbatim>\<open>handleVideoLoaded\<close> (lines 384 to 388); the argument is the duration that the video
  element reports, \<^term>\<open>None\<close> when \<^verbatim>\<open>videoRef.current\<close> is not set.
\<close>

definition handleVideoLoaded :: "number option \<Rightarrow> state \<Rightarrow> state" where
  "handleVideoLoaded current s =
     (case current of None \<Rightarrow> s | Some duration \<Rightarrow> s\<lparr>videoDuration := Some duration\<rparr>)"

text \<open>\<^verbatim>\<open>resetAnalysis\<close> (lines 567 to 576).\<close>

definition resetAnalysis :: "state \<Rightarrow> state" where
  "resetAnalysis s =
     s\<lparr>videoFile := None, videoPreview := None, videoDuration := None, selectedTask := None,
       customQuery := [], analysisResult := None, error := None, selectedAPI := ''auto''\<rparr>"

text \<open>
  The contract of the upload validator, \<^verbatim>\<open>validate(file) -> Ok | Rejected(reason)\<close>, read off
  the two guards of \<^verbatim>\<open>handleVideoUpload\<close> in their order (lines 343 and 348). The lemmas
  \<open>handleVideoUpload_validate\<close> and \<open>handleDrop_validate\<close> compare it with the handlers.
\<close>

datatype rejection = WrongType | TooLarge

datatype validation = Ok | Rejected rejection

definition validate :: "js_file \<Rightarrow> validation" where
  "validate file =
     (if \<not> startsWith (file_type file) ''video/'' then Rejected WrongType
      else if file_size file > 100 * 1024 * 1024 then Rejected TooLarge
      else Ok)"

text \<open>The message that each handler shows for a rejection.\<close>

fun upload_message :: "rejection \<Rightarrow> message" where
  "upload_message WrongType = Text ''Please upload a valid video file (MP4, MOV, AVI, WebM)''"
| "upload_message TooLarge =
     Text ''File size exceeds 100MB limit. Please use a smaller video or compress it.''"

fun drop_message :: "rejection \<Rightarrow> message" where
  "drop_message WrongType = Text ''Please drop a valid video file''"
| "drop_message TooLarge = Text ''File size exceeds 100MB limit''"

text \<open>What both handlers do with a file that passes the guards (lines 352 to 355).\<close>

definition store_upload :: "js_file \<Rightarrow> state \<Rightarrow> state" where
  "store_upload file s =
     s\<lparr>object_urls := object_urls s @ [(urls_issued s, file)],
       urls_issued := Suc (urls_issued s),
       videoFile := Some file, videoPreview := Some (urls_issued s), error := None,
       analysisResult := None\<rparr>"

subsection \<open>The simulated provider call\<close>

text \<open>
  A provider call has not settled yet (\<open>Pending\<close>), has thrown or rejected, or has returned
  its payload.
\<close>

datatype 'a outcome = Pending | Throws thrown | Returns 'a

text \<open>
  The timer of \<^verbatim>\<open>simulateAPICall\<close> (lines 461 to 473) adds \<^verbatim>\<open>Math.random() * 15\<close> to
  \<^verbatim>\<open>progress\<close> at every tick, in the arithmetic of doubles, and resolves its promise when
  the sum has reached 90. What the random numbers and the clock have made of it is an
  input from the environment: the timer is \<^term>\<open>Running p\<close>, with \<open>p\<close> the last value it
  has given to \<^verbatim>\<open>setAnalysisProgress\<close> (\<^term>\<open>None\<close> before the first tick), or it is
  \<^term>\<open>Resolved\<close>, after it has set the progress to 90.
\<close>

datatype timer = Running "number option" | Resolved

text \<open>
  \<^verbatim>\<open>simulateAPICall\<close> (lines 459 to 544). \<open>task\<close> is \<^term>\<open>None\<close> when the caller passes
  \<^verbatim>\<open>undefined\<close>; reading \<^verbatim>\<open>task.id\<close> then throws, and so does \<^verbatim>\<open>apiConfig.name\<close> when
  \<^verbatim>\<open>API_CONFIG\<close> has no entry for \<open>apiName\<close>.
\<close>

definition simulateAPICall ::
  "timer \<Rightarrow> task option \<Rightarrow> string \<Rightarrow> js_file \<Rightarrow> ustring \<Rightarrow>
     number option \<times> payload outcome"
where
  \<open>simulateAPICall timer task apiName file query =
     (case timer of
        Running progress \<Rightarrow> (progress, Pending)
      | Resolved \<Rightarrow>
            (Some (Finite 90),
             let apiConfig = map_of API_CONFIG apiName in
             case task of
               None \<Rightarrow> Throws (TypeError ''id'')
             | Some t \<Rightarrow>
                 if task_id t = ''property_damage'' then
                   (case apiConfig of
                      None \<Rightarrow> Throws (TypeError ''name'')
                    | Some c \<Rightarrow>
                        Returns (DamageReport
                          (utf16 ''Analysis complete using '' @ utf16 (api_name c) @
                           utf16 ''. Video "'' @ file_name file @
                           utf16 ''" has been analyzed for property damage.'')
                          \<lparr>score = Finite 7.5, label = ''Good'',
                           condition_description =
                             ''Property shows normal wear with some areas requiring attention.''\<rparr>
                          [\<lparr>item_id = 1, location = ''Northeast corner of roof'',
                            damage_type = ''Shingle damage'', severity = ''Moderate'',
                            item_timestamp = ''0:12'',
                            item_description = ''Several shingles show signs of lifting and wear'',
                            recommendation =
                              ''Professional inspection recommended within 30 days''\<rparr>,
                           \<lparr>item_id = 2, location = ''Gutter - East side'',
                            damage_type = ''Debris accumulation'', severity = ''Minor'',
                            item_timestamp = ''0:34'',
                            item_description = ''Leaves and debris visible in gutter section'',
                            recommendation = ''Schedule gutter cleaning''\<rparr>]
                          [''Flashing around chimney appears intact'',
                           ''No visible water damage or staining'',
                           ''Ridge cap shingles in good condition'']
                          \<lparr>immediate = [''Clear gutter debris''],
                           shortTerm = [''Schedule professional roof inspection''],
                           longTerm = [''Consider preventive shingle replacement in 2-3 years'']\<rparr>
                          (Finite 0.87)))
                 else if task_id t = ''custom_query'' then
                   Returns (CustomAnswer
                     (utf16 ''Analysis of "'' @ file_name file @ utf16 ''" for query: "'' @
                      query @ utf16 ''"'')
                     (utf16 ''Based on the video analysis, here is what I found regarding your question "'' @
                      query @
                      utf16 (''": The video shows [detailed analysis would appear here based on actual API response]. '' @
                             ''Key observations include visual elements, timing, and contextual information relevant to your query.''))
                     (Finite 0.82)
                     [''0:05'', ''0:23'', ''0:45''])
                 else
                   (case apiConfig of
                      None \<Rightarrow> Throws (TypeError ''name'')
                    | Some c \<Rightarrow>
                        Returns (KeyFindings
                          (utf16 ''Analysis complete using '' @ utf16 (api_name c) @
                           utf16 ''. Your video "'' @ file_name file @
                           utf16 ''" has been processed.'')
                          [''Video successfully analyzed'',
                           ''Content identified and categorized'',
                           ''Key moments detected'']
                          [\<lparr>time = ''0:00'', event = ''Video start''\<rparr>,
                           \<lparr>time = ''0:15'', event = ''Key moment detected''\<rparr>,
                           \<lparr>time = ''0:30'', event = ''Scene change''\<rparr>]
                          (Finite 0.85)))))\<close>

subsection \<open>Dispatch\<close>

text \<open>
  The \<^verbatim>\<open>finally\<close> block of \<^verbatim>\<open>analyzeVideo\<close> (lines 452 to 455), and what the
  \<^verbatim>\<open>catch\<close> block (lines 449 to 451) does before it runs. When the argument of
  \<^verbatim>\<open>setError\<close> throws, the call of \<^verbatim>\<open>setError\<close> is not reached and the \<^verbatim>\<open>finally\<close> block
  runs all the same.
\<close>

definition finally_block :: "state \<Rightarrow> state" where
  "finally_block s = s\<lparr>isAnalyzing := False, analysisProgress := Finite 0\<rparr>"

definition catch_block :: "thrown \<Rightarrow> state \<Rightarrow> state" where
  "catch_block err s =
     (case failure_reason err of
        None \<Rightarrow> finally_block s
      | Some reason \<Rightarrow> finally_block (s\<lparr>error := Some reason\<rparr>))"

text \<open>
  \<^verbatim>\<open>analyzeVideo\<close> (lines 419 to 456), with the provider call as a parameter: the source
  calls \<^verbatim>\<open>simulateAPICall\<close> where a deployment calls the provider. A call returns the
  last progress it has reported, if any, and its outcome. \<open>now\<close> is what \<^verbatim>\<open>new Date().toISOString()\<close>
  gives when the result is stored. The function is the transition from the state in which
  the button is clicked to the state when the call has settled, or, for a pending call, to
  the state in flight; no other event is taken in between.
\<close>

type_synonym provider_call =
  "task option \<Rightarrow> string \<Rightarrow> js_file \<Rightarrow> ustring \<Rightarrow> number option \<times> payload outcome"

definition falsy :: "string option \<Rightarrow> bool" where
  "falsy v = (v = None \<or> v = Some [])"

definition analyzeVideoWith :: "provider_call \<Rightarrow> string \<Rightarrow> state \<Rightarrow> state" where
  "analyzeVideoWith call now s =
     (case (videoFile s, selectedTask s) of
        (Some file, Some tid) \<Rightarrow>
          if tid = [] then s
          else
            let s1 = s\<lparr>isAnalyzing := True, error := None, analysisResult := None,
                       analysisProgress := Finite 10\<rparr>;
                task = map_of ANALYSIS_TASKS tid
            in (case apiToUse tid (selectedAPI s) of
                  Inl err \<Rightarrow> catch_block err s1
                | Inr api \<Rightarrow>
                    let s2 = s1\<lparr>analysisProgress := Finite 20,
                                provider_calls := provider_calls s1 @ [api]\<rparr>
                    in (case call task api file (customQuery s) of
                          (progress, Pending) \<Rightarrow>
                            (case progress of
                               None \<Rightarrow> s2
                             | Some p \<Rightarrow> s2\<lparr>analysisProgress := p\<rparr>)
                        | (progress, Throws err) \<Rightarrow> catch_block err s2
                        | (progress, Returns result) \<Rightarrow>
                            finally_block
                              (s2\<lparr>analysisProgress := Finite 100,
                                  analysisResult :=
                                    Some \<lparr>r_task = tid, r_api = api, r_timestamp = now,
                                          r_videoName = file_name file,
                                          r_videoDuration = videoDuration s,
                                          r_videoSize = file_size file,
                                          r_data = result\<rparr>\<rparr>)))
      | _ \<Rightarrow> s)"

definition analyzeVideo :: "timer \<Rightarrow> string \<Rightarrow> state \<Rightarrow> state" where
  "analyzeVideo timer = analyzeVideoWith (simulateAPICall timer)"

text \<open>The \<^verbatim>\<open>disabled\<close> attribute of the analyze button (line 929).\<close>

definition analyze_disabled :: "state \<Rightarrow> bool" where
  "analyze_disabled s =
     (videoFile s = None \<or> falsy (selectedTask s) \<or> isAnalyzing s \<or>
      (selectedTask s = Some ''custom_query'' \<and> trim (customQuery s) = []))"

subsection \<open>The second variant\<close>

text \<open>
  The second variant has the state variables of the first one without \<^verbatim>\<open>videoDuration\<close>,
  \<^verbatim>\<open>analysisProgress\<close> and \<^verbatim>\<open>showAPIInfo\<close>, the same key \<^verbatim>\<open>custom_query\<close> in its catalog
  (lines 1314 to 1321) and the same text area for the question (lines 1556 to 1565). The
  \<^verbatim>\<open>disabled\<close> attribute of its analyze button is line 1592.
\<close>

definition ANALYSIS_TASKS_keys_v2 :: "string list" where
  "ANALYSIS_TASKS_keys_v2 =
     [''damage_inspection'', ''vehicle_damage'', ''semantic_search'', ''object_tracking'',
      ''content_summary'', ''custom_query'']"

definition analyze_disabled_v2 :: "state \<Rightarrow> bool" where
  "analyze_disabled_v2 s = (videoFile s = None \<or> falsy (selectedTask s) \<or> isAnalyzing s)"

subsection \<open>The third variant\<close>

text \<open>
  \<^verbatim>\<open>Number.prototype.toFixed(2)\<close> of \<^verbatim>\<open>file.size / (1024 * 1024)\<close>. For a size below
  \<open>2 ^ 53\<close> the quotient is exact, and the digits are those of the nearest number of
  hundredths, the larger one of two that are equally near.
\<close>

fun digits :: "nat \<Rightarrow> string" where
  "digits n =
     (if n < 10 then [''0123456789'' ! n]
      else digits (n div 10) @ [''0123456789'' ! (n mod 10)])"

definition megabytes :: "nat \<Rightarrow> string" where
  "megabytes bytes =
     (let h = (200 * bytes + 1024 * 1024) div (2 * 1024 * 1024)
      in digits (h div 100) @ ''.'' @ digits (h mod 100 div 10) @ digits (h mod 10))"

text \<open>
  The object that \<^verbatim>\<open>handleFile\<close> stores, and the state it touches: \<^verbatim>\<open>uploadedFile\<close>,
  \<^verbatim>\<open>dragActive\<close> and the store of object URLs.
\<close>

record uploaded =
  u_file :: js_file
  u_name :: ustring
  u_size :: string
  u_type :: string
  u_preview :: url

record state_v3 =
  uploadedFile :: "uploaded option"
  dragActive :: bool
  object_urls_v3 :: "(url \<times> js_file) list"
  urls_issued_v3 :: nat


definition createObjectURL_v3 :: "js_file \<Rightarrow> state_v3 \<Rightarrow> url \<times> state_v3" where
  "createObjectURL_v3 file s =
     (urls_issued_v3 s,
      s\<lparr>object_urls_v3 := object_urls_v3 s @ [(urls_issued_v3 s, file)],
        urls_issued_v3 := Suc (urls_issued_v3 s)\<rparr>)"

text \<open>\<^verbatim>\<open>handleFile\<close> (lines 2184 to 2194).\<close>

definition handleFile_v3 :: "js_file \<Rightarrow> state_v3 \<Rightarrow> state_v3" where
  "handleFile_v3 file s =
     (if startsWith (file_type file) ''video/'' \<or> startsWith (file_type file) ''image/''
      then (case createObjectURL_v3 file s of
              (preview, s') \<Rightarrow>
                s'\<lparr>uploadedFile :=
                     Some \<lparr>u_file = file, u_name = file_name file,
                           u_size = megabytes (file_size file) @ '' MB'',
                           u_type = file_type file, u_preview = preview\<rparr>\<rparr>)
      else s)"

text \<open>
  \<^verbatim>\<open>handleDrop\<close> of the third variant (lines 2175 to 2182); the argument is the first
  dropped file, \<^term>\<open>None\<close> when there is none.
\<close>

definition handleDrop_v3 :: "js_file option \<Rightarrow> state_v3 \<Rightarrow> state_v3" where
  "handleDrop_v3 e s =
     (case e of
        None \<Rightarrow> s\<lparr>dragActive := False\<rparr>
      | Some file \<Rightarrow> handleFile_v3 file (s\<lparr>dragActive := False\<rparr>))"

subsection \<open>Selections and sample inputs\<close>

text \<open>
  The task cards call \<^verbatim>\<open>setSelectedTask(key)\<close> (line 841) and the provider options call
  \<^verbatim>\<open>setSelectedAPI(e.target.value)\<close> (lines 885 and 902).
\<close>

definition setSelectedTask :: "string \<Rightarrow> state \<Rightarrow> state" where
  "setSelectedTask key s = s\<lparr>selectedTask := Some key\<rparr>"

definition setSelectedAPI :: "string \<Rightarrow> state \<Rightarrow> state" where
  "setSelectedAPI v s = s\<lparr>selectedAPI := v\<rparr>"

text \<open>
  A video of 5 MiB, an image of 2.5 MiB, a second video of 3 MiB, and the state after the
  first video is uploaded and a task card is clicked.
\<close>

definition sample_video :: js_file where
  "sample_video =
     \<lparr>file_name = utf16 ''roof.mp4'', file_type = ''video/mp4'', file_size = 5 * 1024 * 1024\<rparr>"

definition sample_image :: js_file where
  "sample_image =
     \<lparr>file_name = utf16 ''roof.png'', file_type = ''image/png'', file_size = 2621440\<rparr>"

definition sample_clip :: js_file where
  "sample_clip =
     \<lparr>file_name = utf16 ''clip.avi'', file_type = ''video/x-msvideo'',
      file_size = 3 * 1024 * 1024\<rparr>"

text \<open>
  The first video is uploaded and its metadata is loaded (42.5 seconds); then the second
  video is dropped on the upload zone, which stays active over a loaded video (line 787),
  and a task card is clicked.
\<close>

definition sample_replaced_session :: state where
  "sample_replaced_session =
     setSelectedTask ''content_summary''
       (handleDrop (Some sample_clip)
          (handleVideoLoaded (Some (Finite 42.5))
             (handleVideoUpload (Some sample_video) initial_state)))"

definition sample_session :: "string \<Rightarrow> state" where
  "sample_session key =
     setSelectedTask key (handleVideoUpload (Some sample_video) initial_state)"

section \<open>Properties\<close>

subsection \<open>Auxiliary facts\<close>

lemma routing_agrees_with_task:
  "map_of ANALYSIS_TASKS tid = Some t \<Longrightarrow>
     map_of API_ROUTING tid = Some \<lparr>primary = primaryAPI t, fallback = fallbackAPI t\<rparr>"
  by (simp add: ANALYSIS_TASKS_def API_ROUTING_def split: if_splits) auto

lemma routing_fallback_differs:
  "map_of API_ROUTING tid = Some r \<Longrightarrow> fallback r \<noteq> primary r"
  by (auto simp add: API_ROUTING_def split: if_splits)

lemma catalog_key_not_empty: "map_of ANALYSIS_TASKS tid = Some t \<Longrightarrow> tid \<noteq> []"
  by (auto simp add: ANALYSIS_TASKS_def)

lemma property_damage_task:
  "map_of ANALYSIS_TASKS ''property_damage'' =
     Some \<lparr>task_id = ''property_damage'', task_name = ''Property Damage Inspection'',
       task_description = ''Analyze roof, siding, or structural damage from drone/camera footage'',
       task_color = ''#EF4444'', primaryAPI = ''gemini'', fallbackAPI = ''roboflow'',
       creditCost = 5, prompts = [''gemini'']\<rparr>"
  by (simp add: ANALYSIS_TASKS_def)

text \<open>Both handlers are the validator followed by a message or by the storing of the file.\<close>

lemma handleVideoUpload_validate:
  "handleVideoUpload (Some f) s =
     (case validate f of
        Rejected r \<Rightarrow> s\<lparr>error := Some (upload_message r)\<rparr>
      | Ok \<Rightarrow> store_upload f s)"
  by (simp add: handleVideoUpload_def validate_def createObjectURL_def store_upload_def)

lemma handleDrop_validate:
  "handleDrop (Some f) s =
     (case validate f of
        Rejected r \<Rightarrow> s\<lparr>error := Some (drop_message r)\<rparr>
      | Ok \<Rightarrow> store_upload f s)"
  by (simp add: handleDrop_def validate_def createObjectURL_def store_upload_def)

lemma handleDrop_no_file:
  "handleDrop None s = s\<lparr>error := Some (Text ''Please drop a valid video file'')\<rparr>"
  by (simp add: handleDrop_def)

text \<open>A string trims to the empty string exactly when it holds white space only.\<close>

lemma dropWhile_all_iff:
  "(\<forall>c \<in> set (dropWhile P q). P c) \<longleftrightarrow> (\<forall>c \<in> set q. P c)"
proof
  assume a: "\<forall>c \<in> set (dropWhile P q). P c"
  have "dropWhile P q = []"
  proof (rule ccontr)
    assume n: "dropWhile P q \<noteq> []"
    then have "\<not> P (hd (dropWhile P q))" by (rule hd_dropWhile)
    moreover have "hd (dropWhile P q) \<in> set (dropWhile P q)" using n by simp
    ultimately show False using a by blast
  qed
  then show "\<forall>c \<in> set q. P c" by (simp add: dropWhile_eq_Nil_conv)
next
  assume "\<forall>c \<in> set q. P c"
  then show "\<forall>c \<in> set (dropWhile P q). P c" by (auto dest: set_dropWhileD)
qed

lemma trim_empty_iff: "trim q = [] \<longleftrightarrow> (\<forall>c \<in> set q. isWhiteSpace c)"
  by (simp add: trim_def dropWhile_eq_Nil_conv dropWhile_all_iff)

text \<open>The sample inputs.\<close>

lemma validate_sample_video: "validate sample_video = Ok"
  by (simp add: validate_def sample_video_def startsWith_def)

lemma sample_session_fields:
  "videoFile (sample_session key) = Some sample_video"
  "selectedTask (sample_session key) = Some key"
  "selectedAPI (sample_session key) = ''auto''"
  "customQuery (sample_session key) = []"
  "provider_calls (sample_session key) = []"
  "isAnalyzing (sample_session key) = False"
  "videoDuration (sample_session key) = None"
  "object_urls (sample_session key) = [(0, sample_video)]"
  "urls_issued (sample_session key) = 1"
  by (simp_all add: sample_session_def setSelectedTask_def handleVideoUpload_validate
      validate_sample_video store_upload_def initial_state_def)

lemma validate_sample_clip: "validate sample_clip = Ok"
  by (simp add: validate_def sample_clip_def startsWith_def)

subsection \<open>Provider resolution\<close>

text \<open>
  C1. For every task of the catalog, resolving with the override \<^verbatim>\<open>'auto'\<close> gives the primary
  provider of the task, and every other override comes back as it is, whether or not it
  names a provider that suits the task, or a provider at all.
\<close>

theorem resolve_provider_policy:
  "map_of ANALYSIS_TASKS tid = Some t \<Longrightarrow>
     apiToUse tid ''auto'' = Inr (primaryAPI t) \<and>
     (\<forall>ov. ov \<noteq> ''auto'' \<longrightarrow> apiToUse tid ov = Inr ov)"
  using routing_agrees_with_task [of tid t] by (simp add: apiToUse_def)

theorem resolve_provider_policy_witness:
  "map_of ANALYSIS_TASKS ''vehicle_damage'' \<noteq> None \<and>
   apiToUse ''vehicle_damage'' ''auto'' = Inr ''roboflow'' \<and>
   apiToUse ''vehicle_damage'' ''twelveLabs'' = Inr ''twelveLabs'' \<and>
   apiToUse ''vehicle_damage'' ''noSuchProvider'' = Inr ''noSuchProvider'' \<and>
   map_of API_CONFIG ''noSuchProvider'' = None"
proof -
  let ?t = "\<lparr>task_id = ''vehicle_damage'', task_name = ''Vehicle Damage Assessment'',
       task_description = ''Detect dents, scratches, and damage on vehicles'',
       task_color = ''#F59E0B'', primaryAPI = ''roboflow'', fallbackAPI = ''gemini'',
       creditCost = 4, prompts = [''gemini'']\<rparr>"
  have h: "map_of ANALYSIS_TASKS ''vehicle_damage'' = Some ?t"
    by (simp add: ANALYSIS_TASKS_def)
  have n: "map_of API_CONFIG ''noSuchProvider'' = None"
    by (simp add: API_CONFIG_def)
  from resolve_provider_policy [OF h] h n show ?thesis by simp
qed

subsection \<open>The property damage scenario\<close>

text \<open>
  C2. The catalog has the task \<^verbatim>\<open>property_damage\<close> with primary provider \<^verbatim>\<open>gemini\<close> and
  fallback provider \<^verbatim>\<open>roboflow\<close>. Dispatching it with the override \<^verbatim>\<open>'auto'\<close> calls
  \<^verbatim>\<open>gemini\<close>, whatever the timer of the simulated call does, and when the timer has
  resolved the stored payload has a list \<^verbatim>\<open>damageItems\<close> that is not empty, in which every
  severity is Minor, Moderate or Severe and every recommendation is a non-empty string.
\<close>

theorem property_damage_scenario:
  assumes "videoFile s = Some f" and "selectedTask s = Some ''property_damage''"
    and "selectedAPI s = ''auto''"
  shows "(case map_of ANALYSIS_TASKS ''property_damage'' of
            Some t \<Rightarrow> primaryAPI t = ''gemini'' \<and> fallbackAPI t = ''roboflow''
          | None \<Rightarrow> False) \<and>
         apiToUse ''property_damage'' ''auto'' = Inr ''gemini'' \<and>
         provider_calls (analyzeVideo timer now s) = provider_calls s @ [''gemini''] \<and>
         (case analysisResult (analyzeVideo Resolved now s) of
            Some r \<Rightarrow>
              r_api r = ''gemini'' \<and>
              (case r_data r of
                 DamageReport sm oc items po rl cf \<Rightarrow>
                   items \<noteq> [] \<and>
                   (\<forall>d \<in> set items.
                      severity d \<in> {''Minor'', ''Moderate'', ''Severe''} \<and>
                      recommendation d \<noteq> [])
               | _ \<Rightarrow> False)
          | None \<Rightarrow> False)"
proof -
  have a: "apiToUse ''property_damage'' ''auto'' = Inr ''gemini''"
    by (simp add: apiToUse_def API_ROUTING_def)
  have c: "map_of API_CONFIG ''gemini'' \<noteq> None"
    by (simp add: API_CONFIG_def)
  have calls: "provider_calls (analyzeVideo timer now s) = provider_calls s @ [''gemini'']"
    using assms a c
    by (cases timer)
       (auto simp add: property_damage_task analyzeVideo_def analyzeVideoWith_def
          simulateAPICall_def finally_block_def Let_def split: option.splits)
  show ?thesis
    using assms a c calls
    by (auto simp add: property_damage_task analyzeVideo_def analyzeVideoWith_def
        simulateAPICall_def finally_block_def)
qed

theorem property_damage_scenario_witness:
  "selectedTask (sample_session ''property_damage'') = Some ''property_damage'' \<and>
   provider_calls (analyzeVideo (Running None) ''2025-12-17T10:00:00.000Z''
       (sample_session ''property_damage'')) = [''gemini''] \<and>
   provider_calls (analyzeVideo Resolved ''2025-12-17T10:00:00.000Z''
       (sample_session ''property_damage'')) = [''gemini''] \<and>
   analysisResult (analyzeVideo Resolved ''2025-12-17T10:00:00.000Z''
       (sample_session ''property_damage'')) \<noteq> None"
proof -
  let ?s = "sample_session ''property_damage''"
  have f: "videoFile ?s = Some sample_video" by (simp add: sample_session_fields)
  have t: "selectedTask ?s = Some ''property_damage''" by (simp add: sample_session_fields)
  have a: "selectedAPI ?s = ''auto''" by (simp add: sample_session_fields)
  show ?thesis
    using t
      property_damage_scenario [OF f t a, of "Running None" "''2025-12-17T10:00:00.000Z''"]
      property_damage_scenario [OF f t a, of Resolved "''2025-12-17T10:00:00.000Z''"]
    by (auto simp add: sample_session_fields split: option.splits)
qed

subsection \<open>Upload validation\<close>

text \<open>
  C3. A video file is rejected as too large exactly when its size is above
  \<open>100 * 1024 * 1024\<close> bytes: with one byte more than the limit both upload handlers show
  the message for the size and store nothing, with exactly the limit they store the file.
  (A file of another type is rejected for its type before its size is looked at.)
\<close>

theorem upload_size_boundary:
  assumes "startsWith (file_type f) ''video/''"
  shows "(validate f = Rejected TooLarge \<longleftrightarrow> file_size f > 100 * 1024 * 1024) \<and>
         (validate f = Ok \<longleftrightarrow> file_size f \<le> 100 * 1024 * 1024) \<and>
         (file_size f = 100 * 1024 * 1024 + 1 \<longrightarrow>
            validate f = Rejected TooLarge \<and>
            handleVideoUpload (Some f) s = s\<lparr>error := Some (upload_message TooLarge)\<rparr> \<and>
            handleDrop (Some f) s = s\<lparr>error := Some (drop_message TooLarge)\<rparr>) \<and>
         (file_size f = 100 * 1024 * 1024 \<longrightarrow>
            validate f = Ok \<and>
            handleVideoUpload (Some f) s = store_upload f s \<and>
            handleDrop (Some f) s = store_upload f s \<and>
            videoFile (store_upload f s) = Some f \<and> error (store_upload f s) = None)"
  using assms
  by (simp add: handleVideoUpload_validate handleDrop_validate)
     (simp add: validate_def store_upload_def)

theorem upload_size_boundary_witness:
  "startsWith ''video/mp4'' ''video/'' \<and>
   validate \<lparr>file_name = utf16 ''big.mp4'', file_type = ''video/mp4'', file_size = 104857601\<rparr>
     = Rejected TooLarge \<and>
   validate \<lparr>file_name = utf16 ''big.mp4'', file_type = ''video/mp4'', file_size = 104857600\<rparr>
     = Ok \<and>
   videoFile (handleVideoUpload
     (Some \<lparr>file_name = utf16 ''big.mp4'', file_type = ''video/mp4'', file_size = 104857601\<rparr>)
     initial_state) = None \<and>
   videoFile (handleVideoUpload
     (Some \<lparr>file_name = utf16 ''big.mp4'', file_type = ''video/mp4'', file_size = 104857600\<rparr>)
     initial_state) =
     Some \<lparr>file_name = utf16 ''big.mp4'', file_type = ''video/mp4'', file_size = 104857600\<rparr>"
proof -
  have v: "startsWith ''video/mp4'' ''video/''"
    by (simp add: startsWith_def)
  have a: "startsWith (file_type
      \<lparr>file_name = utf16 ''big.mp4'', file_type = ''video/mp4'', file_size = 104857601\<rparr>) ''video/''"
    using v by simp
  have b: "startsWith (file_type
      \<lparr>file_name = utf16 ''big.mp4'', file_type = ''video/mp4'', file_size = 104857600\<rparr>) ''video/''"
    using v by simp
  show ?thesis
    using v upload_size_boundary [OF a, of initial_state]
      upload_size_boundary [OF b, of initial_state]
    by (simp add: initial_state_def)
qed




subsection \<open>The analyze button\<close>

text \<open>
  The button of the first variant is disabled for the custom query while the question is
  empty or white space, and enabled once it has another character (with a file and a task
  chosen and no analysis running).
\<close>

lemma analyze_disabled_custom_query:
  "selectedTask s = Some ''custom_query'' \<Longrightarrow> \<forall>c \<in> set (customQuery s). isWhiteSpace c \<Longrightarrow>
     analyze_disabled s"
  by (simp add: analyze_disabled_def trim_empty_iff)

lemma analyze_enabled_custom_query:
  "videoFile s \<noteq> None \<Longrightarrow> \<not> falsy (selectedTask s) \<Longrightarrow> \<not> isAnalyzing s \<Longrightarrow>
     \<exists>c \<in> set (customQuery s). \<not> isWhiteSpace c \<Longrightarrow> \<not> analyze_disabled s"
  by (auto simp add: analyze_disabled_def trim_empty_iff)

text \<open>
  C5. With the custom query chosen and an empty question the analyze action has to be
  disabled. In the state with an uploaded video, the task \<^verbatim>\<open>custom_query\<close> and the empty
  question, the button of the first variant is disabled and the button of the second
  variant (line 1592) is not.
\<close>

theorem analyze_button_v2_empty_query:
  "videoFile (sample_session ''custom_query'') = Some sample_video \<and>
   selectedTask (sample_session ''custom_query'') = Some ''custom_query'' \<and>
   ''custom_query'' \<in> set ANALYSIS_TASKS_keys_v2 \<and>
   customQuery (sample_session ''custom_query'') = [] \<and>
   isAnalyzing (sample_session ''custom_query'') = False \<and>
   analyze_disabled (sample_session ''custom_query'') \<and>
   \<not> analyze_disabled_v2 (sample_session ''custom_query'')"
  by (simp add: sample_session_fields analyze_disabled_def analyze_disabled_v2_def falsy_def
      trim_def ANALYSIS_TASKS_keys_v2_def)

subsection \<open>Dispatch\<close>

text \<open>
  What a dispatch of a catalog task does when its provider call throws or rejects. The
  error shown is the message of the thrown value when that is a non-empty string, the
  text \<^verbatim>\<open>Analysis failed. Please try again.\<close> when the value has no message or an empty
  one, and nothing when the message cannot be read. In every case no result is stored,
  the analysis is no longer in flight, and the failed call is the only provider call of
  the dispatch: it is not repeated and no other provider is called after it. Under the
  override \<^verbatim>\<open>'auto'\<close> the provider called is the primary one, which is never the fallback
  provider of the task.
\<close>

lemma failed_call_effect:
  assumes "videoFile s = Some f" and "selectedTask s = Some tid"
    and "map_of ANALYSIS_TASKS tid = Some t"
    and "apiToUse tid (selectedAPI s) = Inr api"
    and "call (Some t) api f (customQuery s) = (progress, Throws err)"
  shows "error (analyzeVideoWith call now s) =
           (case err of
              TypeError p \<Rightarrow> Some (TypeErrorText p)
            | Unreadable \<Rightarrow> None
            | WithMessage m \<Rightarrow>
                Some (Text (if m = [] then ''Analysis failed. Please try again.'' else m))
            | WithoutMessage \<Rightarrow> Some (Text ''Analysis failed. Please try again.'')
            | WithOtherMessage \<Rightarrow> Some NonText) \<and>
         analysisResult (analyzeVideoWith call now s) = None \<and>
         isAnalyzing (analyzeVideoWith call now s) = False \<and>
         provider_calls (analyzeVideoWith call now s) = provider_calls s @ [api] \<and>
         (selectedAPI s = ''auto'' \<longrightarrow> api = primaryAPI t \<and> fallbackAPI t \<noteq> api)"
proof -
  have n: "tid \<noteq> []"
    using assms(3) by (rule catalog_key_not_empty)
  have r: "map_of API_ROUTING tid = Some \<lparr>primary = primaryAPI t, fallback = fallbackAPI t\<rparr>"
    using assms(3) by (rule routing_agrees_with_task)
  have "selectedAPI s = ''auto'' \<longrightarrow> api = primaryAPI t \<and> fallbackAPI t \<noteq> api"
    using assms(4) r routing_fallback_differs [OF r]
    by (auto simp add: apiToUse_def)
  moreover have "error (analyzeVideoWith call now s) = failure_reason err \<and>
      analysisResult (analyzeVideoWith call now s) = None \<and>
      isAnalyzing (analyzeVideoWith call now s) = False \<and>
      provider_calls (analyzeVideoWith call now s) = provider_calls s @ [api]"
    using assms n
    by (cases "failure_reason err")
       (simp_all add: analyzeVideoWith_def catch_block_def finally_block_def)
  ultimately show ?thesis
    by (cases err) auto
qed


subsection \<open>The preview handle\<close>

text \<open>
  C7, as the claim states it, fails: the file has no call of \<^verbatim>\<open>URL.revokeObjectURL\<close>.
  After an upload and a reset the object URL of the preview is still allocated although
  the state no longer holds it, and a second upload leaves the URL of the first one
  allocated next to its own.
\<close>

theorem preview_handle_counterexample:
  "videoPreview (handleVideoUpload (Some sample_video) initial_state) = Some 0 \<and>
   object_urls (handleVideoUpload (Some sample_video) initial_state) = [(0, sample_video)] \<and>
   videoPreview (resetAnalysis (handleVideoUpload (Some sample_video) initial_state)) = None \<and>
   object_urls (resetAnalysis (handleVideoUpload (Some sample_video) initial_state)) =
     [(0, sample_video)] \<and>
   object_urls (handleVideoUpload (Some sample_video)
       (handleVideoUpload (Some sample_video) initial_state)) =
     [(0, sample_video), (1, sample_video)]"
  by (simp add: handleVideoUpload_validate validate_sample_video store_upload_def
      resetAnalysis_def initial_state_def)

text \<open>
  C7, amended. Resetting the session clears the task selection, the query text, the prior
  result, the file and the reference to its preview, and releases no preview handle: the
  store of object URLs is as before. An accepted upload allocates a new handle for the
  file and releases none: the handles allocated before stay in the store.
\<close>

theorem reset_and_upload_keep_handles:
  "selectedTask (resetAnalysis s) = None \<and> customQuery (resetAnalysis s) = [] \<and>
   analysisResult (resetAnalysis s) = None \<and> videoFile (resetAnalysis s) = None \<and>
   videoPreview (resetAnalysis s) = None \<and>
   object_urls (resetAnalysis s) = object_urls s \<and>
   (validate f = Ok \<longrightarrow>
      object_urls (handleVideoUpload (Some f) s) = object_urls s @ [(urls_issued s, f)] \<and>
      videoPreview (handleVideoUpload (Some f) s) = Some (urls_issued s) \<and>
      object_urls (handleDrop (Some f) s) = object_urls s @ [(urls_issued s, f)] \<and>
      videoPreview (handleDrop (Some f) s) = Some (urls_issued s))"
  by (simp add: resetAnalysis_def handleVideoUpload_validate handleDrop_validate
      store_upload_def)

theorem reset_and_upload_keep_handles_witness:
  "validate sample_video = Ok \<and>
   object_urls (handleVideoUpload (Some sample_video) (sample_session ''custom_query'')) =
     [(0, sample_video), (1, sample_video)] \<and>
   videoPreview (handleVideoUpload (Some sample_video) (sample_session ''custom_query'')) = Some 1 \<and>
   object_urls (resetAnalysis (sample_session ''custom_query'')) = [(0, sample_video)] \<and>
   selectedTask (resetAnalysis (sample_session ''custom_query'')) = None"
  using validate_sample_video
    reset_and_upload_keep_handles [of "sample_session ''custom_query''" sample_video]
  by (simp add: sample_session_fields)

subsection \<open>The result envelope\<close>

text \<open>
  What a dispatch of a catalog task stores when its provider call returns: the task, the
  provider that was called, the time of the clock, the name and the size of the file in
  \<^verbatim>\<open>videoFile\<close>, the value of \<^verbatim>\<open>videoDuration\<close>, and the payload as the call returned it.
\<close>

lemma result_envelope_fields:
  assumes "videoFile s = Some f" and "selectedTask s = Some tid"
    and "map_of ANALYSIS_TASKS tid = Some t"
    and "apiToUse tid (selectedAPI s) = Inr api"
    and "call (Some t) api f (customQuery s) = (progress, Returns result)"
  shows "analysisResult (analyzeVideoWith call now s) =
           Some \<lparr>r_task = tid, r_api = api, r_timestamp = now, r_videoName = file_name f,
                 r_videoDuration = videoDuration s, r_videoSize = file_size f,
                 r_data = result\<rparr> \<and>
         provider_calls (analyzeVideoWith call now s) = provider_calls s @ [api] \<and>
         error (analyzeVideoWith call now s) = None"
  using assms catalog_key_not_empty [OF assms(3)]
  by (simp add: analyzeVideoWith_def finally_block_def)

text \<open>
  \<^verbatim>\<open>videoDuration\<close> is written by \<^verbatim>\<open>handleVideoLoaded\<close> and cleared by \<^verbatim>\<open>resetAnalysis\<close>
  (line 570); an accepted upload replaces the file and leaves the duration of the file
  before.
\<close>

lemma upload_keeps_duration:
  "videoDuration (resetAnalysis s) = None \<and>
   (validate f = Ok \<longrightarrow>
      videoFile (handleVideoUpload (Some f) s) = Some f \<and>
      videoDuration (handleVideoUpload (Some f) s) = videoDuration s \<and>
      videoFile (handleDrop (Some f) s) = Some f \<and>
      videoDuration (handleDrop (Some f) s) = videoDuration s)"
  by (simp add: resetAnalysis_def handleVideoUpload_validate handleDrop_validate
      store_upload_def)

text \<open>
  C8. The stored result has to carry a snapshot of the source media: its name, its size
  and its decoded duration. After \<^verbatim>\<open>roof.mp4\<close> has been loaded with a duration of 42.5
  seconds and \<^verbatim>\<open>clip.avi\<close> has been dropped in its place, the result of a dispatch carries
  the name and the size of \<^verbatim>\<open>clip.avi\<close> with the duration of \<^verbatim>\<open>roof.mp4\<close>.
\<close>

theorem stale_duration_in_result:
  "videoFile (handleVideoLoaded (Some (Finite 42.5))
       (handleVideoUpload (Some sample_video) initial_state)) = Some sample_video \<and>
   videoFile sample_replaced_session = Some sample_clip \<and>
   videoDuration sample_replaced_session = Some (Finite 42.5) \<and>
   (case analysisResult
           (analyzeVideo Resolved ''2025-12-17T10:00:00.000Z'' sample_replaced_session) of
      Some r \<Rightarrow>
        r_task r = ''content_summary'' \<and> r_api r = ''gemini'' \<and>
        r_timestamp r = ''2025-12-17T10:00:00.000Z'' \<and>
        r_videoName r = utf16 ''clip.avi'' \<and> r_videoSize r = 3145728 \<and>
        r_videoDuration r = Some (Finite 42.5) \<and>
        keyFindings (r_data r) =
          [''Video successfully analyzed'', ''Content identified and categorized'',
           ''Key moments detected'']
    | None \<Rightarrow> False)"
proof -
  have s: "videoFile sample_replaced_session = Some sample_clip"
    "videoDuration sample_replaced_session = Some (Finite 42.5)"
    "selectedTask sample_replaced_session = Some ''content_summary''"
    "selectedAPI sample_replaced_session = ''auto''"
    by (simp_all add: sample_replaced_session_def setSelectedTask_def handleDrop_validate
        validate_sample_clip handleVideoUpload_validate validate_sample_video
        handleVideoLoaded_def store_upload_def initial_state_def)
  have v: "videoFile (handleVideoLoaded (Some (Finite 42.5))
       (handleVideoUpload (Some sample_video) initial_state)) = Some sample_video"
    by (simp add: handleVideoUpload_validate validate_sample_video handleVideoLoaded_def
        store_upload_def)
  have t: "map_of ANALYSIS_TASKS ''content_summary'' \<noteq> None"
    "map_of API_CONFIG ''gemini'' \<noteq> None"
    by (simp_all add: ANALYSIS_TASKS_def API_CONFIG_def)
  have a: "apiToUse ''content_summary'' ''auto'' = Inr ''gemini''"
    by (simp add: apiToUse_def API_ROUTING_def)
  have k: "task_id t = ''content_summary''"
    if "map_of ANALYSIS_TASKS ''content_summary'' = Some t" for t
    using that by (auto simp add: ANALYSIS_TASKS_def)
  show ?thesis
    using s v t a k
    by (auto simp add: analyzeVideo_def analyzeVideoWith_def simulateAPICall_def
        finally_block_def sample_clip_def)
qed

subsection \<open>Task lookup\<close>

text \<open>
  C9, as the claim states it, fails: the lookup \<^verbatim>\<open>ANALYSIS_TASKS[selectedTask]\<close> of an
  identifier that the catalog does not have gives \<^verbatim>\<open>undefined\<close> and no error. With the
  override \<^verbatim>\<open>gemini\<close> the dispatch goes on to call the provider, and fails only when
  \<^verbatim>\<open>simulateAPICall\<close> reads \<^verbatim>\<open>task.id\<close>; with \<^verbatim>\<open>'auto'\<close> it fails when it reads
  \<^verbatim>\<open>routing.primary\<close>. Both are type errors of the engine.
\<close>

theorem unknown_task_counterexample:
  "map_of ANALYSIS_TASKS ''damage_inspection'' = None \<and>
   provider_calls (analyzeVideo Resolved ''2025-12-17T10:00:00.000Z''
       (setSelectedAPI ''gemini'' (sample_session ''damage_inspection''))) = [''gemini''] \<and>
   error (analyzeVideo Resolved ''2025-12-17T10:00:00.000Z''
       (setSelectedAPI ''gemini'' (sample_session ''damage_inspection''))) =
     Some (TypeErrorText ''id'') \<and>
   error (analyzeVideo Resolved ''2025-12-17T10:00:00.000Z''
       (sample_session ''damage_inspection'')) = Some (TypeErrorText ''primary'')"
proof -
  have t: "map_of ANALYSIS_TASKS ''damage_inspection'' = None"
    by (simp add: ANALYSIS_TASKS_def)
  have r: "map_of API_ROUTING ''damage_inspection'' = None"
    by (simp add: API_ROUTING_def)
  show ?thesis
    by (simp add: t r analyzeVideo_def analyzeVideoWith_def setSelectedAPI_def
        sample_session_fields apiToUse_def simulateAPICall_def
        catch_block_def finally_block_def)
qed

text \<open>
  C9, amended. Looking up an identifier that is not a key of the catalog (and not a name
  that every object inherits) gives \<^verbatim>\<open>undefined\<close>, without an error; looking up a key of
  the catalog gives the task that has this identifier.
\<close>

theorem task_lookup:
  assumes "tid \<notin> set Object_prototype_names"
  shows "(tid \<notin> set (map fst ANALYSIS_TASKS) \<longrightarrow> map_of ANALYSIS_TASKS tid = None) \<and>
         (tid \<in> set (map fst ANALYSIS_TASKS) \<longrightarrow>
            (case map_of ANALYSIS_TASKS tid of Some t \<Rightarrow> task_id t = tid | None \<Rightarrow> False))"
proof -
  have "tid \<in> set (map fst ANALYSIS_TASKS) \<Longrightarrow>
          (case map_of ANALYSIS_TASKS tid of Some t \<Rightarrow> task_id t = tid | None \<Rightarrow> False)"
    by (auto simp add: ANALYSIS_TASKS_def)
  moreover have "tid \<notin> set (map fst ANALYSIS_TASKS) \<Longrightarrow> map_of ANALYSIS_TASKS tid = None"
    by (simp add: map_of_eq_None_iff)
  ultimately show ?thesis by blast
qed

theorem task_lookup_witness:
  "''damage_inspection'' \<notin> set Object_prototype_names \<and>
   ''content_search'' \<notin> set Object_prototype_names \<and>
   map_of ANALYSIS_TASKS ''damage_inspection'' = None \<and>
   (case map_of ANALYSIS_TASKS ''content_search'' of
      Some t \<Rightarrow> task_id t = ''content_search'' | None \<Rightarrow> False)"
proof -
  have a: "''damage_inspection'' \<notin> set Object_prototype_names"
    by (simp add: Object_prototype_names_def)
  have b: "''content_search'' \<notin> set Object_prototype_names"
    by (simp add: Object_prototype_names_def)
  have c: "''damage_inspection'' \<notin> set (map fst ANALYSIS_TASKS)"
    by (simp add: ANALYSIS_TASKS_def)
  have d: "''content_search'' \<in> set (map fst ANALYSIS_TASKS)"
    by (simp add: ANALYSIS_TASKS_def)
  show ?thesis
    using a b c d task_lookup [OF a] task_lookup [OF b] by blast
qed

subsection \<open>Rejected uploads\<close>

text \<open>
  C10. A rejected upload changes nothing but the error message: after
  \<^verbatim>\<open>handleVideoUpload\<close> or \<^verbatim>\<open>handleDrop\<close> has rejected a file (and after a drop without a
  file) the uploaded video, its preview handle, the duration, the selected task, the
  query, the prior result and the store of object URLs are what they were.
\<close>

theorem upload_rejection_atomic:
  assumes "validate f = Rejected r"
  shows "handleVideoUpload (Some f) s = s\<lparr>error := Some (upload_message r)\<rparr> \<and>
         handleDrop (Some f) s = s\<lparr>error := Some (drop_message r)\<rparr> \<and>
         (\<forall>s' \<in> {handleVideoUpload (Some f) s, handleDrop (Some f) s, handleDrop None s}.
            videoFile s' = videoFile s \<and> videoPreview s' = videoPreview s \<and>
            videoDuration s' = videoDuration s \<and> selectedTask s' = selectedTask s \<and>
            customQuery s' = customQuery s \<and> analysisResult s' = analysisResult s \<and>
            selectedAPI s' = selectedAPI s \<and> isAnalyzing s' = isAnalyzing s \<and>
            object_urls s' = object_urls s \<and> error s' \<noteq> None)"
  using assms by (simp add: handleVideoUpload_validate handleDrop_validate handleDrop_no_file)

theorem upload_rejection_atomic_witness:
  "validate sample_image = Rejected WrongType \<and>
   handleVideoUpload (Some sample_image) (sample_session ''custom_query'') =
     (sample_session ''custom_query'')
       \<lparr>error := Some (Text ''Please upload a valid video file (MP4, MOV, AVI, WebM)'')\<rparr> \<and>
   videoFile (handleDrop (Some sample_image) (sample_session ''custom_query'')) =
     Some sample_video"
proof -
  have h: "validate sample_image = Rejected WrongType"
    by (simp add: validate_def sample_image_def startsWith_def)
  show ?thesis
    using h upload_rejection_atomic [OF h, of "sample_session ''custom_query''"]
    by (simp add: sample_session_fields)
qed

end
